theory Spec2Isabelle
  imports Main
begin

section \<open>Data model of \<open>src/index.tsx\<close>\<close>

text \<open>
  The interfaces \<open>Task\<close>, \<open>Stakeholder\<close>, \<open>Blocker\<close>, \<open>Resource\<close>, \<open>Project\<close> and
  \<open>ChatMessage\<close>. String-literal union types are datatypes. Field names that occur in
  several interfaces carry the interface as a prefix, since record fields share one name
  space. \<open>number\<close> fields hold integers (the response schema types them \<open>INTEGER\<close>) and
  are modelled as \<open>int\<close>.
\<close>

datatype status = NotStarted | InProgress | Completed | Blocked

text \<open>\<open>Task\<close> is recursive through \<open>subtasks: Task[]\<close>, hence a datatype with selectors.\<close>

datatype task =
  Task (task_id: string) (task_name: string) (task_description: string)
       (task_status: status) (subtasks: "task list")

record stakeholder =
  stakeholder_name :: string
  role :: string
  contact :: string

record blocker =
  blocker_id :: string
  blocker_description :: string
  resolved :: bool

datatype resourceType = Tool | Library | Documentation | HumanResource

record resource =
  resource_name :: string
  resource_type :: resourceType
  url :: "string option"
  resource_description :: string

record priorities =
  speed :: int
  scope :: int

record timeline =
  startDate :: string
  targetDate :: string

record project =
  projectName :: string
  projectType :: string
  projectGoals :: "string list"
  tasks :: "task list"
  progress :: int
  priorities :: priorities
  stakeholders :: "stakeholder list"
  timeline :: timeline
  blockers :: "blocker list"
  resources :: "resource list"
  suggestedActions :: "string list"

datatype sender = User | AI

record chatMessage =
  msg_sender :: sender
  msg_text :: string
  timestamp :: string

subsection \<open>The \<open>consultancyUpdate\<close> payload (\<open>nextStepSchema\<close>)\<close>

text \<open>
  Fields the schema lists under \<open>required\<close> are plain; every other field is an
  \<open>option\<close>, \<open>None\<close> standing for a key that is missing (or \<open>null\<close>). The reducer
  reads \<open>progressUpdate\<close> through \<open>|| 0\<close>, so it is an option here although the schema
  requires it.
\<close>

datatype action = Add | Remove | Update | Complete

record taskUpdate =
  taskId :: "string option"
  tu_name :: string
  tu_description :: "string option"
  tu_status :: "status option"
  action :: action

record priorityUpdate =
  pu_speed :: "int option"
  pu_scope :: "int option"

record blockerUpdate =
  bu_description :: string

record consultancyUpdate =
  responseText :: string
  upd_suggestedActions :: "string list"
  progressUpdate :: "int option"
  priorityUpdate :: "priorityUpdate option"
  upd_blockers :: "blockerUpdate list option"
  taskUpdates :: "taskUpdate list option"

section \<open>Helper functions\<close>

subsection \<open>\<open>generateId\<close>\<close>

text \<open>
  \<open>generateId = () => `id_${Date.now()}_${Math.random().toString(36).substr(2, 9)}`\<close>
  reads the clock and the random number generator. The environment is a sequence
  giving, for the k-th call still to come, the clock reading and the random suffix; a
  call consumes the head of the sequence.
\<close>

type_synonym entropy = "nat \<Rightarrow> nat \<times> string"

definition digitChar :: "nat \<Rightarrow> char" where
  "digitChar d = ''0123456789'' ! d"

fun showNat :: "nat \<Rightarrow> string" where
  "showNat n = (if n < 10 then [digitChar n] else showNat (n div 10) @ [digitChar (n mod 10)])"

declare showNat.simps [simp del]

definition generateId :: "entropy \<Rightarrow> string \<times> entropy" where
  "generateId e =
     (''id_'' @ showNat (fst (e 0)) @ ''_'' @ snd (e 0), \<lambda>k. e (Suc k))"

subsection \<open>JavaScript operators used by the reducer\<close>

text \<open>\<open>a || b\<close> on an optional string: \<open>undefined\<close> and the empty string are falsy.\<close>

definition orString :: "string option \<Rightarrow> string \<Rightarrow> string" where
  "orString a b = (case a of None \<Rightarrow> b | Some s \<Rightarrow> if s = [] then b else s)"

text \<open>\<open>a || b\<close> on an optional status: every status literal is a non-empty string.\<close>

definition orStatus :: "status option \<Rightarrow> status \<Rightarrow> status" where
  "orStatus a b = (case a of None \<Rightarrow> b | Some s \<Rightarrow> s)"

text \<open>\<open>a || 0\<close> on an optional number: \<open>undefined\<close> and \<open>0\<close> are falsy.\<close>

definition orZero :: "int option \<Rightarrow> int" where
  "orZero a = (case a of None \<Rightarrow> 0 | Some d \<Rightarrow> if d = 0 then 0 else d)"

text \<open>\<open>Array.prototype.findIndex\<close>; the result \<open>-1\<close> is \<open>None\<close>.\<close>

fun findIndex :: "('a \<Rightarrow> bool) \<Rightarrow> 'a list \<Rightarrow> nat option" where
  "findIndex P [] = None"
| "findIndex P (x # xs) = (if P x then Some 0 else map_option Suc (findIndex P xs))"

text \<open>\<open>xs.splice(i, 1)\<close>, for its effect on \<open>xs\<close>.\<close>

definition splice1 :: "nat \<Rightarrow> 'a list \<Rightarrow> 'a list" where
  "splice1 i xs = take i xs @ drop (Suc i) xs"

section \<open>The project state reducer\<close>

text \<open>
  The function passed to \<open>setProject\<close> inside \<open>handleSendMessage\<close> (lines 586 to 644).
  The predicate of \<open>findIndex\<close> is
  \<open>t => t.id === taskUpdate.taskId || t.name === taskUpdate.name\<close>.
\<close>

definition matchesUpdate :: "taskUpdate \<Rightarrow> task \<Rightarrow> bool" where
  "matchesUpdate u t = (Some (task_id t) = taskId u \<or> task_name t = tu_name u)"

definition existingTaskIndex :: "taskUpdate \<Rightarrow> task list \<Rightarrow> nat option" where
  "existingTaskIndex u ts = findIndex (matchesUpdate u) ts"

text \<open>The object literal pushed by the \<open>add\<close> branch.\<close>

definition newTask :: "string \<Rightarrow> taskUpdate \<Rightarrow> task" where
  "newTask i u =
     Task i (tu_name u) (orString (tu_description u) []) (orStatus (tu_status u) NotStarted) []"

text \<open>The object literal assigned by the \<open>update or complete\<close> branch.\<close>

definition patchTask :: "taskUpdate \<Rightarrow> task \<Rightarrow> task" where
  "patchTask u t =
     Task (task_id t)
          (orString (Some (tu_name u)) (task_name t))
          (orString (tu_description u) (task_description t))
          (orStatus (tu_status u) (task_status t))
          (subtasks t)"

text \<open>The body of \<open>update.taskUpdates.forEach\<close>, on \<open>newTasks\<close> and the environment.\<close>

fun applyTaskUpdate :: "taskUpdate \<Rightarrow> task list \<times> entropy \<Rightarrow> task list \<times> entropy" where
  "applyTaskUpdate u (newTasks, e) =
     (if action u = Add then
        (case existingTaskIndex u newTasks of
           None \<Rightarrow> (let (i, e') = generateId e in (newTasks @ [newTask i u], e'))
         | Some k \<Rightarrow> (newTasks, e))
      else
        (case existingTaskIndex u newTasks of
           None \<Rightarrow> (newTasks, e)
         | Some k \<Rightarrow>
             (if action u = Remove then (splice1 k newTasks, e)
              else (newTasks[k := patchTask u (newTasks ! k)], e))))"

fun applyTaskUpdates :: "taskUpdate list \<Rightarrow> task list \<times> entropy \<Rightarrow> task list \<times> entropy" where
  "applyTaskUpdates [] s = s"
| "applyTaskUpdates (u # us) s = applyTaskUpdates us (applyTaskUpdate u s)"

text \<open>The body of \<open>update.blockers.forEach\<close>, on \<open>newBlockers\<close> and the environment.\<close>

fun pushBlocker :: "blockerUpdate \<Rightarrow> blocker list \<times> entropy \<Rightarrow> blocker list \<times> entropy" where
  "pushBlocker b (newBlockers, e) =
     (let (i, e') = generateId e
      in (newBlockers @
            [\<lparr>blocker_id = i, blocker_description = bu_description b, resolved = False\<rparr>], e'))"

fun pushBlockers :: "blockerUpdate list \<Rightarrow> blocker list \<times> entropy \<Rightarrow> blocker list \<times> entropy" where
  "pushBlockers [] s = s"
| "pushBlockers (b # bs) s = pushBlockers bs (pushBlocker b s)"

definition newPriorities :: "priorityUpdate option \<Rightarrow> priorities \<Rightarrow> priorities" where
  "newPriorities pu p =
     (case pu of
        Some d \<Rightarrow> \<lparr>speed = speed p + orZero (pu_speed d), scope = scope p + orZero (pu_scope d)\<rparr>
      | None \<Rightarrow> p)"

definition newProgress :: "int \<Rightarrow> int option \<Rightarrow> int" where
  "newProgress p d = max 0 (min 100 (p + orZero d))"

text \<open>
  The two loops of the reducer: \<open>if (update.taskUpdates) {...}\<close> on a copy of the
  tasks, and \<open>if (update.blockers) {...}\<close> on a copy of the blockers.
\<close>

definition reconcileTasks :: "consultancyUpdate \<Rightarrow> task list \<times> entropy \<Rightarrow> task list \<times> entropy" where
  "reconcileTasks update s =
     (case taskUpdates update of None \<Rightarrow> s | Some us \<Rightarrow> applyTaskUpdates us s)"

definition collectBlockers :: "consultancyUpdate \<Rightarrow> blocker list \<times> entropy \<Rightarrow> blocker list \<times> entropy" where
  "collectBlockers update s =
     (case upd_blockers update of None \<Rightarrow> s | Some bs \<Rightarrow> pushBlockers bs s)"

text \<open>
  The reducer on a project that is present: tasks first, then progress, then blockers,
  then the returned object literal \<open>{...prevProject, tasks, progress, blockers,
  suggestedActions, priorities}\<close>. It returns the next project and the environment
  left after its calls of \<open>generateId\<close>.
\<close>

fun applyUpdate :: "consultancyUpdate \<Rightarrow> project \<times> entropy \<Rightarrow> project \<times> entropy" where
  "applyUpdate update (prevProject, e) =
     (let (newTasks, e1) = reconcileTasks update (tasks prevProject, e);
          (newBlockers, e2) = collectBlockers update (blockers prevProject, e1)
      in (prevProject
            \<lparr>tasks := newTasks,
             progress := newProgress (progress prevProject) (progressUpdate update),
             blockers := newBlockers,
             suggestedActions := upd_suggestedActions update,
             priorities := newPriorities (priorityUpdate update) (priorities prevProject)\<rparr>,
          e2))"


declare applyTaskUpdate.simps [simp del]
declare pushBlocker.simps [simp del]
declare applyUpdate.simps [simp del]

section \<open>The conversation orchestrator\<close>

text \<open>
  The state of \<open>App\<close>: the three \<open>useState\<close> cells, and the calls of
  \<open>ai.models.generateContent\<close> that \<open>handleSendMessage\<close> is awaiting. A call is
  recorded by what its prompt is built from: the message, the project and
  \<open>chatHistory.slice(-4)\<close>.
\<close>

record request =
  req_message :: string
  req_project :: project
  req_history :: "chatMessage list"

record appState =
  project :: "project option"
  chatHistory :: "chatMessage list"
  isLoading :: bool
  inFlight :: "request list"


definition sliceLast :: "nat \<Rightarrow> 'a list \<Rightarrow> 'a list" where
  "sliceLast n xs = drop (length xs - n) xs"


text \<open>
  \<open>handleSendMessage\<close> up to its \<open>await\<close>. \<open>now\<close> is \<open>new Date().toISOString()\<close>.
\<close>

definition handleSendMessage_call :: "string \<Rightarrow> string \<Rightarrow> appState \<Rightarrow> appState" where
  "handleSendMessage_call now message st =
     (case project st of
        None \<Rightarrow> st
      | Some p \<Rightarrow>
          st\<lparr>chatHistory :=
               chatHistory st @ [\<lparr>msg_sender = User, msg_text = message, timestamp = now\<rparr>],
             isLoading := True,
             inFlight :=
               inFlight st @
                 [\<lparr>req_message = message, req_project = p,
                   req_history = sliceLast 4 (chatHistory st)\<rparr>]\<rparr>)"


text \<open>\<open>project?.tasks.find(t => t.id === taskId)\<close>\<close>

definition findTask :: "appState \<Rightarrow> string \<Rightarrow> task option" where
  "findTask st tid =
     (case project st of None \<Rightarrow> None | Some p \<Rightarrow> find (\<lambda>t. task_id t = tid) (tasks p))"

text \<open>The template literal \<open>`I have just completed the task: "${task.name}".`\<close>\<close>

definition completedMessage :: "task \<Rightarrow> string" where
  "completedMessage t =
     ''I have just completed the task: '' @ [CHR 0x22] @ task_name t @ [CHR 0x22] @ ''.''"

definition handleTaskStatusChange :: "string \<Rightarrow> string \<Rightarrow> status \<Rightarrow> appState \<Rightarrow> appState" where
  "handleTaskStatusChange now tid s st =
     (case findTask st tid of
        None \<Rightarrow> st
      | Some t \<Rightarrow>
          (if s = Completed then handleSendMessage_call now (completedMessage t) st else st))"

subsection \<open>The controls of \<open>ActionPanel\<close> and \<open>TaskItem\<close>\<close>

text \<open>
  \<open>String.prototype.trim\<close> on the white space and line terminators of ASCII.
\<close>

definition isWhiteSpace :: "char \<Rightarrow> bool" where
  "isWhiteSpace c = (c \<in> set [CHR 0x09, CHR 0x0A, CHR 0x0B, CHR 0x0C, CHR 0x0D, CHR 0x20])"

definition trim :: "string \<Rightarrow> string" where
  "trim s = rev (dropWhile isWhiteSpace (rev (dropWhile isWhiteSpace s)))"

text \<open>\<open>handleSend\<close>, on the text of the input field.\<close>

definition handleSend :: "string \<Rightarrow> string \<Rightarrow> appState \<Rightarrow> appState" where
  "handleSend now message st =
     (if trim message \<noteq> [] \<and> \<not> isLoading st
      then handleSendMessage_call now (trim message) st else st)"

text \<open>\<open>handleSuggestedSend\<close>, on the clicked suggestion.\<close>

definition handleSuggestedSend :: "string \<Rightarrow> string \<Rightarrow> appState \<Rightarrow> appState" where
  "handleSuggestedSend now act st =
     (if \<not> isLoading st then handleSendMessage_call now act st else st)"

text \<open>
  The button \<open>Mark as Completed\<close> of a \<open>TaskItem\<close>:
  \<open>onClick={() => onStatusChange(task.id, 'Completed')}\<close>.
\<close>

definition markAsCompleted :: "string \<Rightarrow> task \<Rightarrow> appState \<Rightarrow> appState" where
  "markAsCompleted now t st = handleTaskStatusChange now (task_id t) Completed st"

section \<open>Reference definitions\<close>

text \<open>
  Task resolution as the specification words it: first by id over the whole list, and
  by name only when no task matches by id.
\<close>

definition resolveIdThenName :: "taskUpdate \<Rightarrow> task list \<Rightarrow> nat option" where
  "resolveIdThenName u ts =
     (case findIndex (\<lambda>t. Some (task_id t) = taskId u) ts of
        Some k \<Rightarrow> Some k
      | None \<Rightarrow> findIndex (\<lambda>t. task_name t = tu_name u) ts)"


section \<open>Example values\<close>

text \<open>
  A project as the creation flow leaves it, with one task, and the state of \<open>App\<close>
  showing it with no request under way.
\<close>

definition recipeApp :: project where
  "recipeApp =
     \<lparr>projectName = ''Recipe App'', projectType = ''Mobile App'',
      projectGoals = [''search'', ''favorites''],
      tasks = [Task ''t1'' ''Implement search'' ''Full-text search'' NotStarted []],
      progress = 0, priorities = \<lparr>speed = 0, scope = 0\<rparr>, stakeholders = [],
      timeline = \<lparr>startDate = ''2024-01-01T00:00:00.000Z'', targetDate = []\<rparr>,
      blockers = [], resources = [], suggestedActions = [''Start with search'']\<rparr>"

definition idleState :: appState where
  "idleState = \<lparr>project = Some recipeApp, chatHistory = [], isLoading = False, inFlight = []\<rparr>"

section \<open>Properties of the reducer\<close>

lemma applyUpdate_progress:
  "progress (fst (applyUpdate u (p, e))) = newProgress (progress p) (progressUpdate u)"
  by (simp add: applyUpdate.simps split: prod.splits)

text \<open>
  Claim C4. For every current progress \<open>p\<close> and every update, the new progress is
  \<open>max 0 (min 100 (p + d))\<close>, where \<open>d\<close> is the update's progress delta and a missing
  delta counts as 0. From 95 a delta of 20 gives 100, from 5 a delta of -20 gives 0, and
  the new progress always lies in the interval from 0 to 100.
\<close>

theorem progress_clamped:
  "progress (fst (applyUpdate u (p, e)))
     = max 0 (min 100 (progress p + (case progressUpdate u of None \<Rightarrow> 0 | Some d \<Rightarrow> d)))
   \<and> 0 \<le> progress (fst (applyUpdate u (p, e)))
   \<and> progress (fst (applyUpdate u (p, e))) \<le> 100
   \<and> progress (fst (applyUpdate (u\<lparr>progressUpdate := Some 20\<rparr>) (p\<lparr>progress := 95\<rparr>, e))) = 100
   \<and> progress (fst (applyUpdate (u\<lparr>progressUpdate := Some (- 20)\<rparr>) (p\<lparr>progress := 5\<rparr>, e))) = 0"
  by (simp add: applyUpdate_progress newProgress_def orZero_def split: option.splits)

subsection \<open>Task resolution\<close>

lemma findIndex_Some:
  "findIndex P xs = Some k \<Longrightarrow> k < length xs \<and> P (xs ! k) \<and> (\<forall>j<k. \<not> P (xs ! j))"
proof (induction xs arbitrary: k)
  case Nil
  then show ?case by simp
next
  case (Cons x xs)
  show ?case
  proof (cases "P x")
    case True
    with Cons.prems show ?thesis by simp
  next
    case False
    with Cons.prems obtain m where m: "findIndex P xs = Some m" "k = Suc m"
      by auto
    from Cons.IH [OF m(1)] False m(2) show ?thesis
      by (auto simp: less_Suc_eq_0_disj)
  qed
qed

lemma findIndex_None: "findIndex P xs = None \<Longrightarrow> x \<in> set xs \<Longrightarrow> \<not> P x"
  by (induction xs) (auto split: if_splits)

text \<open>
  Claim C1, as the code has it. The target of a task-update entry is the task at the
  earliest position whose id equals the entry's \<open>taskId\<close> or whose name equals the
  entry's \<open>name\<close>, both compared by exact string equality: the task found satisfies one
  of the two equations and no task before it satisfies either; when none is found, no
  task of the list satisfies either. The list is searched once with the disjunction, so
  an id match has no priority over a name match at an earlier position.
\<close>

theorem existingTaskIndex_first_match:
  "case existingTaskIndex u ts of
     None \<Rightarrow> \<forall>t \<in> set ts. taskId u \<noteq> Some (task_id t) \<and> tu_name u \<noteq> task_name t
   | Some k \<Rightarrow>
       k < length ts
       \<and> (taskId u = Some (task_id (ts ! k)) \<or> tu_name u = task_name (ts ! k))
       \<and> (\<forall>j<k. taskId u \<noteq> Some (task_id (ts ! j)) \<and> tu_name u \<noteq> task_name (ts ! j))"
proof (cases "existingTaskIndex u ts")
  case None
  then have "\<forall>t \<in> set ts. \<not> matchesUpdate u t"
    using findIndex_None [of "matchesUpdate u" ts] by (auto simp: existingTaskIndex_def)
  with None show ?thesis by (auto simp: matchesUpdate_def)
next
  case (Some k)
  then have "k < length ts \<and> matchesUpdate u (ts ! k) \<and> (\<forall>j<k. \<not> matchesUpdate u (ts ! j))"
    using findIndex_Some [of "matchesUpdate u" ts k] by (simp add: existingTaskIndex_def)
  with Some show ?thesis by (auto simp: matchesUpdate_def)
qed

text \<open>
  The theorem at a list of three tasks: the entry's id is that of the second and third
  task and its name that of the third, and the second task is found. An entry whose name
  differs from a task's name only in the case of a letter finds nothing.
\<close>

theorem existingTaskIndex_first_match_witness:
  "existingTaskIndex
     \<lparr>taskId = Some ''b'', tu_name = ''Z'', tu_description = None, tu_status = None,
      action = Update\<rparr>
     [Task ''a'' ''X'' [] NotStarted [], Task ''b'' ''Y'' [] NotStarted [],
      Task ''b'' ''Z'' [] NotStarted []] = Some 1
   \<and> existingTaskIndex
     \<lparr>taskId = None, tu_name = ''x'', tu_description = None, tu_status = None,
      action = Update\<rparr>
     [Task ''a'' ''X'' [] NotStarted []] = None"
  using existingTaskIndex_first_match
    [where u = "\<lparr>taskId = Some ''b'', tu_name = ''Z'', tu_description = None,
                 tu_status = None, action = Update\<rparr>"
       and ts = "[Task ''a'' ''X'' [] NotStarted [], Task ''b'' ''Y'' [] NotStarted [],
                  Task ''b'' ''Z'' [] NotStarted []]"]
  by (simp add: existingTaskIndex_def matchesUpdate_def)

text \<open>
  Claim C1, as the specification words it, fails. The first task has the entry's name,
  the second has the entry's id: the reducer takes the first, resolution by id before
  name takes the second.
\<close>

theorem id_before_name_counterexample:
  "existingTaskIndex
     \<lparr>taskId = Some ''b'', tu_name = ''X'', tu_description = None, tu_status = None,
      action = Update\<rparr>
     [Task ''a'' ''X'' [] NotStarted [], Task ''b'' ''Y'' [] NotStarted []] = Some 0
   \<and> resolveIdThenName
     \<lparr>taskId = Some ''b'', tu_name = ''X'', tu_description = None, tu_status = None,
      action = Update\<rparr>
     [Task ''a'' ''X'' [] NotStarted [], Task ''b'' ''Y'' [] NotStarted []] = Some 1"
  by (simp add: existingTaskIndex_def matchesUpdate_def resolveIdThenName_def)

subsection \<open>Task updates\<close>

text \<open>
  Claim C5. An entry with action \<open>update\<close> or \<open>complete\<close> draws no id. When no task
  matches it, the task list is unchanged. When the task at position \<open>k\<close> matches it, the
  list keeps its length and every task at another position; the task at \<open>k\<close> keeps its
  id and subtasks, and its name, description and status are each replaced by the entry's
  value where the entry has a non-empty one and kept otherwise.
\<close>

theorem update_is_partial_patch:
  assumes "action u = Update \<or> action u = Complete"
  shows "snd (applyTaskUpdate u (ts, e)) = e
    \<and> (case existingTaskIndex u ts of
         None \<Rightarrow> fst (applyTaskUpdate u (ts, e)) = ts
       | Some k \<Rightarrow>
           length (fst (applyTaskUpdate u (ts, e))) = length ts
           \<and> (\<forall>j<length ts. j \<noteq> k \<longrightarrow> fst (applyTaskUpdate u (ts, e)) ! j = ts ! j)
           \<and> task_id (fst (applyTaskUpdate u (ts, e)) ! k) = task_id (ts ! k)
           \<and> subtasks (fst (applyTaskUpdate u (ts, e)) ! k) = subtasks (ts ! k)
           \<and> task_name (fst (applyTaskUpdate u (ts, e)) ! k)
               = (if tu_name u = [] then task_name (ts ! k) else tu_name u)
           \<and> task_description (fst (applyTaskUpdate u (ts, e)) ! k)
               = (case tu_description u of
                    None \<Rightarrow> task_description (ts ! k)
                  | Some d \<Rightarrow> if d = [] then task_description (ts ! k) else d)
           \<and> task_status (fst (applyTaskUpdate u (ts, e)) ! k)
               = (case tu_status u of None \<Rightarrow> task_status (ts ! k) | Some s \<Rightarrow> s))"
proof (cases "existingTaskIndex u ts")
  case None
  with assms show ?thesis by (auto simp: applyTaskUpdate.simps)
next
  case (Some k)
  then have k: "k < length ts"
    using findIndex_Some [of "matchesUpdate u" ts k] by (simp add: existingTaskIndex_def)
  from assms Some have step: "applyTaskUpdate u (ts, e) = (ts[k := patchTask u (ts ! k)], e)"
    by (auto simp: applyTaskUpdate.simps)
  from k show ?thesis
    by (simp add: step Some patchTask_def orString_def orStatus_def split: option.splits)
qed

text \<open>
  The theorem on the specification's example, behind another task: the entry names
  task \<open>A\<close> and carries a status and no description.
\<close>

theorem update_is_partial_patch_witness:
  "(action \<lparr>taskId = None, tu_name = ''A'', tu_description = None,
            tu_status = Some InProgress, action = Update\<rparr> = Update
    \<or> action \<lparr>taskId = None, tu_name = ''A'', tu_description = None,
            tu_status = Some InProgress, action = Update\<rparr> = Complete)
   \<and> existingTaskIndex
       \<lparr>taskId = None, tu_name = ''A'', tu_description = None,
        tu_status = Some InProgress, action = Update\<rparr>
       [Task ''t0'' ''B'' ''E'' Blocked [], Task ''t1'' ''A'' ''D'' NotStarted []] = Some 1
   \<and> fst (applyTaskUpdate
       \<lparr>taskId = None, tu_name = ''A'', tu_description = None,
        tu_status = Some InProgress, action = Update\<rparr>
       ([Task ''t0'' ''B'' ''E'' Blocked [], Task ''t1'' ''A'' ''D'' NotStarted []],
        \<lambda>k. (0, [])))
     = [Task ''t0'' ''B'' ''E'' Blocked [], Task ''t1'' ''A'' ''D'' InProgress []]"
  using update_is_partial_patch
    [where u = "\<lparr>taskId = None, tu_name = ''A'', tu_description = None,
                 tu_status = Some InProgress, action = Update\<rparr>"
       and ts = "[Task ''t0'' ''B'' ''E'' Blocked [], Task ''t1'' ''A'' ''D'' NotStarted []]"
       and e = "\<lambda>k. (0, [])"]
  by (simp add: applyTaskUpdate.simps existingTaskIndex_def matchesUpdate_def patchTask_def
        orString_def orStatus_def)



subsection \<open>Blockers\<close>





subsection \<open>Priorities\<close>



subsection \<open>Frame\<close>

text \<open>
  Claim C9. The reducer returns a project whose \<open>projectName\<close>, \<open>projectType\<close>,
  \<open>projectGoals\<close>, \<open>stakeholders\<close>, \<open>timeline\<close> and \<open>resources\<close> are those of the
  project it was given: only \<open>tasks\<close>, \<open>progress\<close>, \<open>blockers\<close>, \<open>suggestedActions\<close>
  and \<open>priorities\<close> are assigned.
\<close>

theorem reducer_frame:
  "projectName (fst (applyUpdate u (p, e))) = projectName p
   \<and> projectType (fst (applyUpdate u (p, e))) = projectType p
   \<and> projectGoals (fst (applyUpdate u (p, e))) = projectGoals p
   \<and> stakeholders (fst (applyUpdate u (p, e))) = stakeholders p
   \<and> timeline (fst (applyUpdate u (p, e))) = timeline p
   \<and> resources (fst (applyUpdate u (p, e))) = resources p"
  by (simp add: applyUpdate.simps split: prod.splits)

section \<open>Properties of the orchestrator\<close>



subsection \<open>The status-change handler\<close>

lemma find_task_id:
  "find (\<lambda>t. task_id t = tid) ts = Some t \<Longrightarrow> t \<in> set ts \<and> task_id t = tid"
  by (induction ts) (auto split: if_splits)

lemma find_task_none:
  "find (\<lambda>t. task_id t = tid) ts = None \<longleftrightarrow> tid \<notin> task_id ` set ts"
  by (induction ts) auto

lemma handleSendMessage_call_project:
  "project (handleSendMessage_call now m st) = project st"
  by (simp add: handleSendMessage_call_def split: option.splits)

text \<open>
  Claim C10. \<open>handleTaskStatusChange\<close> never changes the project, so no task either.
  For a requested status other than \<open>Completed\<close>, with no project, or with a task id
  that no task of the project has, it leaves the whole state as it is. For the status
  \<open>Completed\<close> and a task id that a task of the project has, it does what
  \<open>handleSendMessage\<close> does up to its \<open>await\<close> on the message synthesized from
  that task's name: it appends that message as a \<open>user\<close> message, sets the loading flag
  and calls the Gateway.
\<close>

theorem status_change_only_sends:
  "project (handleTaskStatusChange now tid s st) = project st
   \<and> (s \<noteq> Completed \<longrightarrow> handleTaskStatusChange now tid s st = st)
   \<and> (project st = None \<longrightarrow> handleTaskStatusChange now tid s st = st)
   \<and> (\<forall>p. project st = Some p \<and> tid \<notin> task_id ` set (tasks p) \<longrightarrow>
         handleTaskStatusChange now tid s st = st)
   \<and> (\<forall>p. project st = Some p \<and> tid \<in> task_id ` set (tasks p) \<longrightarrow>
         (\<exists>t \<in> set (tasks p). task_id t = tid
            \<and> handleTaskStatusChange now tid Completed st
                = handleSendMessage_call now (completedMessage t) st
            \<and> handleSendMessage_call now (completedMessage t) st
                = st\<lparr>chatHistory :=
                       chatHistory st @
                         [\<lparr>msg_sender = User, msg_text = completedMessage t, timestamp = now\<rparr>],
                     isLoading := True,
                     inFlight :=
                       inFlight st @
                         [\<lparr>req_message = completedMessage t, req_project = p,
                           req_history = sliceLast 4 (chatHistory st)\<rparr>]\<rparr>))"
proof -
  have a: "project (handleTaskStatusChange now tid s st) = project st"
    by (simp add: handleTaskStatusChange_def handleSendMessage_call_project split: option.splits)
  have b: "s \<noteq> Completed \<longrightarrow> handleTaskStatusChange now tid s st = st"
    by (simp add: handleTaskStatusChange_def split: option.splits)
  have c: "project st = None \<longrightarrow> handleTaskStatusChange now tid s st = st"
    by (simp add: handleTaskStatusChange_def findTask_def)
  have d: "handleTaskStatusChange now tid s st = st"
    if "project st = Some p" "tid \<notin> task_id ` set (tasks p)" for p
    using that find_task_none [of tid "tasks p"]
    by (simp add: handleTaskStatusChange_def findTask_def)
  have e: "\<exists>t \<in> set (tasks p). task_id t = tid
            \<and> handleTaskStatusChange now tid Completed st
                = handleSendMessage_call now (completedMessage t) st
            \<and> handleSendMessage_call now (completedMessage t) st
                = st\<lparr>chatHistory :=
                       chatHistory st @
                         [\<lparr>msg_sender = User, msg_text = completedMessage t, timestamp = now\<rparr>],
                     isLoading := True,
                     inFlight :=
                       inFlight st @
                         [\<lparr>req_message = completedMessage t, req_project = p,
                           req_history = sliceLast 4 (chatHistory st)\<rparr>]\<rparr>"
    if p: "project st = Some p" and "tid \<in> task_id ` set (tasks p)" for p
  proof -
    from that obtain t where t: "find (\<lambda>t. task_id t = tid) (tasks p) = Some t"
      using find_task_none [of tid "tasks p"]
      by (cases "find (\<lambda>t. task_id t = tid) (tasks p)") auto
    from find_task_id [OF t] have "t \<in> set (tasks p)" "task_id t = tid" by auto
    moreover have "handleTaskStatusChange now tid Completed st
                = handleSendMessage_call now (completedMessage t) st"
      by (simp add: handleTaskStatusChange_def findTask_def p t)
    moreover have "handleSendMessage_call now (completedMessage t) st
                = st\<lparr>chatHistory :=
                       chatHistory st @
                         [\<lparr>msg_sender = User, msg_text = completedMessage t, timestamp = now\<rparr>],
                     isLoading := True,
                     inFlight :=
                       inFlight st @
                         [\<lparr>req_message = completedMessage t, req_project = p,
                           req_history = sliceLast 4 (chatHistory st)\<rparr>]\<rparr>"
      by (simp add: handleSendMessage_call_def p)
    ultimately show ?thesis by blast
  qed
  from a b c d e show ?thesis by blast
qed

text \<open>
  The theorem at the example state: for the id of its task and \<open>Completed\<close>, for the
  same id and another status, and for an id that no task has.
\<close>

theorem status_change_only_sends_witness:
  "project idleState = Some recipeApp
   \<and> ''t1'' \<in> task_id ` set (tasks recipeApp)
   \<and> ''t9'' \<notin> task_id ` set (tasks recipeApp)
   \<and> InProgress \<noteq> Completed
   \<and> handleTaskStatusChange ''12:00:00'' ''t1'' Completed idleState
       = handleSendMessage_call ''12:00:00''
           (''I have just completed the task: '' @ [CHR 0x22] @ ''Implement search'' @
            [CHR 0x22] @ ''.'') idleState
   \<and> handleTaskStatusChange ''12:00:00'' ''t1'' InProgress idleState = idleState
   \<and> handleTaskStatusChange ''12:00:00'' ''t9'' Completed idleState = idleState"
  using status_change_only_sends
    [where st = idleState and now = "''12:00:00''" and tid = "''t1''" and s = InProgress]
    status_change_only_sends
    [where st = idleState and now = "''12:00:00''" and tid = "''t9''" and s = Completed]
  by (simp add: idleState_def recipeApp_def handleTaskStatusChange_def findTask_def
        completedMessage_def)

subsection \<open>Sends while a request is under way\<close>

lemma sends_rejected_while_loading:
  "isLoading st \<Longrightarrow> handleSend now message st = st \<and> handleSuggestedSend now act st = st"
  by (simp add: handleSend_def handleSuggestedSend_def)

text \<open>
  Claim C2 fails for the control \<open>Mark as Completed\<close>. After a manual send from the
  example state the loading flag is set and one Gateway call is awaited; a further manual
  send and a click on a suggestion are rejected, but \<open>Mark as Completed\<close> on the task
  goes through \<open>handleTaskStatusChange\<close> to \<open>handleSendMessage\<close>, neither of which
  reads the loading flag, and a second Gateway call is awaited at the same time.
\<close>

theorem mark_completed_sends_while_loading:
  "(let st1 = handleSend ''12:00:00'' ''done with search'' idleState;
        st2 = markAsCompleted ''12:00:01''
                (Task ''t1'' ''Implement search'' ''Full-text search'' NotStarted []) st1
    in isLoading st1
       \<and> length (inFlight st1) = 1
       \<and> handleSend ''12:00:01'' ''one more'' st1 = st1
       \<and> handleSuggestedSend ''12:00:01'' ''Start with search'' st1 = st1
       \<and> length (inFlight st2) = 2
       \<and> map req_message (inFlight st2)
           = [''done with search'',
              ''I have just completed the task: '' @ [CHR 0x22] @ ''Implement search'' @
              [CHR 0x22] @ ''.''])"
  by (simp add: idleState_def recipeApp_def handleSend_def handleSuggestedSend_def
        markAsCompleted_def handleTaskStatusChange_def findTask_def completedMessage_def
        handleSendMessage_call_def trim_def isWhiteSpace_def Let_def)

end
